theory Spec2Isabelle
  imports Main "HOL-Library.Word"
begin

section \<open>The serial command forwarder of \<^verbatim>\<open>native_bridge/bluetooth_bridge.py\<close>\<close>

text \<open>
  The program under study:
  \<^verbatim>\<open>
  app = Flask(__name__)
  ser = serial.Serial('COM5', 9600, timeout=1)

  @app.route('/send', methods=['POST'])
  def send_command():
      command = request.json.get('command', '') + '\n'
      ser.write(command.encode())
      return {'status': 'sent', 'command': command.strip()}

  if __name__ == '__main__':
      app.run(port=5000)
  \<close>
  The handler is three lines over Python's \<open>str\<close>, Flask's \<open>request.json\<close> and
  pySerial's \<open>write\<close>. Each of the three lines is a definition below; the library
  operations they call are modelled first.
\<close>

subsection \<open>Python values and exceptions\<close>

text \<open>
  A Python \<open>str\<close> is a sequence of Unicode code points (numbers below \<open>0x110000\<close>,
  lone surrogates included). A byte is an 8-bit word.
\<close>

type_synonym pystr = "nat list"
type_synonym byte = "8 word"

definition lit :: "string \<Rightarrow> pystr" where
  "lit s = map of_char s"

text \<open>The values \<open>json.loads\<close> produces. A float is kept as its 64-bit pattern.\<close>

datatype pyval =
    PNone
  | PBool bool
  | PInt int
  | PFloat "64 word"
  | PStr pystr
  | PList "pyval list"
  | PDict "(pystr \<times> pyval) list"

datatype exn =
    BadRequest
  | UnsupportedMediaType
  | AttributeError
  | TypeError
  | UnicodeEncodeError
  | SerialException

fun is_str :: "pyval \<Rightarrow> bool" where
  "is_str (PStr s) = True"
| "is_str v = False"

fun is_dict :: "pyval \<Rightarrow> bool" where
  "is_dict (PDict d) = True"
| "is_dict v = False"

text \<open>
  \<open>v.get(k, dflt)\<close>: a dictionary lookup with a default. Of the values JSON decoding
  produces only \<open>dict\<close> has the attribute \<open>get\<close>; on the others the attribute access
  raises \<open>AttributeError\<close>.
\<close>

fun py_get :: "pyval \<Rightarrow> pystr \<Rightarrow> pyval \<Rightarrow> exn + pyval" where
  "py_get (PDict d) k dflt = Inr (case map_of d k of None \<Rightarrow> dflt | Some v \<Rightarrow> v)"
| "py_get v k dflt = Inl AttributeError"

text \<open>
  \<open>v + t\<close> for a \<open>str\<close> right operand \<open>t\<close>: concatenation when \<open>v\<close> is a \<open>str\<close>,
  \<open>TypeError\<close> for \<open>None\<close>, \<open>bool\<close>, \<open>int\<close>, \<open>float\<close>, \<open>list\<close> and \<open>dict\<close>.
\<close>

fun py_add :: "pyval \<Rightarrow> pystr \<Rightarrow> exn + pystr" where
  "py_add (PStr s) t = Inr (s @ t)"
| "py_add v t = Inl TypeError"

text \<open>
  \<open>str.encode()\<close> is UTF-8 with strict error handling: one to four bytes per code
  point, and \<open>UnicodeEncodeError\<close> on a surrogate (\<open>0xD800\<close> to \<open>0xDFFF\<close>). Numbers from
  \<open>0x110000\<close> are not code points and occur in no \<open>str\<close>; they have no encoding.
\<close>

definition utf8 :: "nat \<Rightarrow> byte list option" where
  "utf8 c =
     (if c < 0x80 then Some [of_nat c]
      else if c < 0x800 then Some [of_nat (0xC0 + c div 64), of_nat (0x80 + c mod 64)]
      else if 0xD800 \<le> c \<and> c \<le> 0xDFFF then None
      else if c < 0x10000 then
        Some [of_nat (0xE0 + c div 4096), of_nat (0x80 + c div 64 mod 64),
              of_nat (0x80 + c mod 64)]
      else if c < 0x110000 then
        Some [of_nat (0xF0 + c div 262144), of_nat (0x80 + c div 4096 mod 64),
              of_nat (0x80 + c div 64 mod 64), of_nat (0x80 + c mod 64)]
      else None)"

fun encode :: "pystr \<Rightarrow> exn + byte list" where
  "encode [] = Inr []"
| "encode (c # cs) =
     (case utf8 c of
        None \<Rightarrow> Inl UnicodeEncodeError
      | Some bs \<Rightarrow> (case encode cs of Inl e \<Rightarrow> Inl e | Inr rest \<Rightarrow> Inr (bs @ rest)))"

text \<open>
  \<open>str.isspace\<close> on one code point, which is what \<open>str.strip()\<close> without argument
  tests: the code points CPython lists as whitespace.
\<close>

definition isspace :: "nat \<Rightarrow> bool" where
  "isspace c \<longleftrightarrow>
     (0x09 \<le> c \<and> c \<le> 0x0D) \<or> (0x1C \<le> c \<and> c \<le> 0x20) \<or> c = 0x85 \<or> c = 0xA0 \<or>
     c = 0x1680 \<or> (0x2000 \<le> c \<and> c \<le> 0x200A) \<or> c = 0x2028 \<or> c = 0x2029 \<or>
     c = 0x202F \<or> c = 0x205F \<or> c = 0x3000"

text \<open>\<open>s.strip()\<close> removes the whitespace at both ends of \<open>s\<close>.\<close>

definition strip :: "pystr \<Rightarrow> pystr" where
  "strip s = rev (dropWhile isspace (rev (dropWhile isspace s)))"

text \<open>
  \<open>s.rstrip()\<close> removes the whitespace at the end of \<open>s\<close> only. The program does not
  call it; it is the trimming "of trailing whitespace" that the description of the
  acknowledgement speaks of, kept here to compare with \<open>strip\<close>.
\<close>

definition rstrip :: "pystr \<Rightarrow> pystr" where
  "rstrip s = rev (dropWhile isspace (rev s))"

subsection \<open>Flask: the request body\<close>

text \<open>
  Of a request the handler reads \<open>request.json\<close> only. That property depends on two
  facts about the request: whether its content type announces JSON (\<open>is_json\<close>), and
  what \<open>json.loads\<close> makes of the body (\<open>loads\<close>, \<open>None\<close> when the body is not valid
  JSON, an empty body included).
\<close>

record request =
  is_json :: bool
  loads :: "pyval option"

text \<open>
  \<open>request.json\<close> is implemented by Werkzeug, the library under Flask, and the
  repository pins neither. Werkzeug's releases differ on a body whose content type is
  not JSON: before 2.1 \<open>request.json\<close> is \<open>None\<close> there, from 2.1 it aborts with 400,
  from 2.3 with 415. A body that announces JSON and does not parse aborts with 400 in
  all of them.
\<close>


datatype werkzeug_release = Before_2_1 | From_2_1 | From_2_3

definition request_json :: "werkzeug_release \<Rightarrow> request \<Rightarrow> exn + pyval" where
  "request_json rel req =
     (if is_json req then
        (case loads req of None \<Rightarrow> Inl BadRequest | Some v \<Rightarrow> Inr v)
      else
        (case rel of
           Before_2_1 \<Rightarrow> Inr PNone
         | From_2_1 \<Rightarrow> Inl BadRequest
         | From_2_3 \<Rightarrow> Inl UnsupportedMediaType))"

subsection \<open>pySerial: the port\<close>

text \<open>
  The port object keeps its settings. Two more fields record what the properties below
  are about: \<open>calls\<close>, the operations invoked on the port in order, and \<open>wire\<close>, the
  bytes that have reached the device.
\<close>

datatype ser_call = Open | Write "byte list" | Read | Close

record serial =
  port :: pystr
  baudrate :: nat
  timeout :: nat
  calls :: "ser_call list"
  wire :: "byte list"

text \<open>
  \<open>serial.Serial(port, baudrate, timeout=t)\<close> opens the port at once and raises
  \<open>SerialException\<close> when the device cannot be opened. Whether it can is the
  environment's choice.
\<close>

definition Serial :: "bool \<Rightarrow> pystr \<Rightarrow> nat \<Rightarrow> nat \<Rightarrow> exn + serial" where
  "Serial available p b t =
     (if available then
        Inr \<lparr>port = p, baudrate = b, timeout = t, calls = [Open], wire = []\<rparr>
      else Inl SerialException)"

text \<open>
  What the device does with one \<open>write\<close> is the environment's choice as well: it
  accepts all the bytes, or the call raises \<open>SerialException\<close> (port closed under
  the program, device gone, permission lost) after some number of bytes went out.
\<close>

datatype device = Accepts | Faults nat

fun ser_write :: "device \<Rightarrow> byte list \<Rightarrow> serial \<Rightarrow> serial \<times> (exn + nat)" where
  "ser_write Accepts bs s =
     (s\<lparr>calls := calls s @ [Write bs], wire := wire s @ bs\<rparr>, Inr (length bs))"
| "ser_write (Faults k) bs s =
     (s\<lparr>calls := calls s @ [Write bs], wire := wire s @ take k bs\<rparr>, Inl SerialException)"

subsection \<open>The handler\<close>

text \<open>Line 12: \<^verbatim>\<open>command = request.json.get('command', '') + '\n'\<close>.\<close>

definition command_line :: "werkzeug_release \<Rightarrow> request \<Rightarrow> exn + pystr" where
  "command_line rel req =
     (case request_json rel req of
        Inl e \<Rightarrow> Inl e
      | Inr body \<Rightarrow>
          (case py_get body (lit ''command'') (PStr []) of
             Inl e \<Rightarrow> Inl e
           | Inr v \<Rightarrow> py_add v [0x0A]))"

text \<open>
  Lines 13 and 14: \<^verbatim>\<open>ser.write(command.encode())\<close>, then the dictionary
  \<^verbatim>\<open>{'status': 'sent', 'command': command.strip()}\<close>. The result pairs the port
  after the call with the exception raised or the dictionary returned.
\<close>

type_synonym ack = "(pystr \<times> pystr) list"

definition send_command ::
  "werkzeug_release \<Rightarrow> device \<Rightarrow> request \<Rightarrow> serial \<Rightarrow> serial \<times> (exn + ack)" where
  "send_command rel dev req ser =
     (case command_line rel req of
        Inl e \<Rightarrow> (ser, Inl e)
      | Inr command \<Rightarrow>
          (case encode command of
             Inl e \<Rightarrow> (ser, Inl e)
           | Inr bs \<Rightarrow>
               (case ser_write dev bs ser of
                  (ser', Inl e) \<Rightarrow> (ser', Inl e)
                | (ser', Inr n) \<Rightarrow>
                    (ser', Inr [(lit ''status'', lit ''sent''),
                                (lit ''command'', strip command)]))))"

subsection \<open>Flask: responses and the serving loop\<close>

text \<open>
  Flask turns what a view returns or raises into a response: a dictionary becomes a
  JSON body with status 200; an exception that is an HTTP error (\<open>BadRequest\<close>,
  \<open>UnsupportedMediaType\<close>) becomes a response with its code; any other exception is
  caught by the application and answered with 500, and the server goes on.
\<close>

record response =
  status_code :: nat
  json :: "ack option"

fun make_response :: "exn + ack \<Rightarrow> response" where
  "make_response (Inr d) = \<lparr>status_code = 200, json = Some d\<rparr>"
| "make_response (Inl BadRequest) = \<lparr>status_code = 400, json = None\<rparr>"
| "make_response (Inl UnsupportedMediaType) = \<lparr>status_code = 415, json = None\<rparr>"
| "make_response (Inl e) = \<lparr>status_code = 500, json = None\<rparr>"

definition post_send ::
  "werkzeug_release \<Rightarrow> device \<Rightarrow> request \<Rightarrow> serial \<Rightarrow> serial \<times> response" where
  "post_send rel dev req ser =
     (case send_command rel dev req ser of (ser', r) \<Rightarrow> (ser', make_response r))"

text \<open>
  \<open>app.run\<close> serves the requests one after the other. Its input is the sequence of
  \<open>POST /send\<close> requests received so far, each with what the device does at that
  moment; its result is the port afterwards and the responses in order.
\<close>

fun app_run ::
  "werkzeug_release \<Rightarrow> serial \<Rightarrow> (device \<times> request) list \<Rightarrow> serial \<times> response list" where
  "app_run rel ser [] = (ser, [])"
| "app_run rel ser ((dev, req) # rest) =
     (case post_send rel dev req ser of
        (ser', resp) \<Rightarrow>
          (case app_run rel ser' rest of (ser'', resps) \<Rightarrow> (ser'', resp # resps)))"

text \<open>
  The module from top to bottom: line 8 opens the port, and an exception there ends
  the process before \<open>app.run\<close> is reached.
\<close>

definition main ::
  "bool \<Rightarrow> werkzeug_release \<Rightarrow> (device \<times> request) list \<Rightarrow> exn + serial \<times> response list" where
  "main available rel inputs =
     (case Serial available (lit ''COM5'') 9600 1 of
        Inl e \<Rightarrow> Inl e
      | Inr ser \<Rightarrow> Inr (app_run rel ser inputs))"

text \<open>Two inputs that the examples below share: the port as line 8 leaves it, and a
  request whose body announces JSON and parses to \<open>v\<close>.\<close>

abbreviation com5 :: serial where
  "com5 \<equiv> \<lparr>port = lit ''COM5'', baudrate = 9600, timeout = 1, calls = [Open], wire = []\<rparr>"

abbreviation json_body :: "pyval \<Rightarrow> request" where
  "json_body v \<equiv> \<lparr>is_json = True, loads = Some v\<rparr>"

section \<open>Facts about the string operations\<close>

lemma encode_append:
  "encode (xs @ ys) =
     (case encode xs of
        Inl e \<Rightarrow> Inl e
      | Inr a \<Rightarrow> (case encode ys of Inl e \<Rightarrow> Inl e | Inr b \<Rightarrow> Inr (a @ b)))"
  by (induction xs) (auto split: option.splits sum.splits)

lemma encode_line: "encode C = Inr bs \<Longrightarrow> encode (C @ [0x0A]) = Inr (bs @ [0x0A])"
  by (simp add: encode_append utf8_def)

lemma isspace_newline: "isspace 0x0A"
  by (simp add: isspace_def)

text \<open>The newline that line 12 appends is whitespace, so \<open>strip\<close> removes it again.\<close>

lemma strip_line: "strip (C @ [0x0A]) = strip C"
proof (cases "\<forall>c\<in>set C. isspace c")
  case True
  then have 1: "dropWhile isspace C = []"
    by (simp only: dropWhile_eq_Nil_conv)
  from True have "dropWhile isspace (C @ [0x0A]) = dropWhile isspace [0x0A]"
    by (simp only: dropWhile_append2)
  then have 2: "dropWhile isspace (C @ [0x0A]) = []"
    by (simp add: isspace_newline)
  show ?thesis
    unfolding strip_def 1 2 by simp
next
  case False
  then obtain x where "x \<in> set C" and "\<not> isspace x" by blast
  then have "dropWhile isspace (C @ [0x0A]) = dropWhile isspace C @ [0x0A]"
    by (rule dropWhile_append1)
  then show ?thesis by (simp add: strip_def isspace_newline)
qed

text \<open>What \<open>strip\<close> keeps is a middle part of the string; what it drops on either side
  is whitespace, and what it keeps neither starts nor ends with whitespace.\<close>

lemma strip_decomp:
  "\<exists>pre post. C = pre @ strip C @ post \<and>
     (\<forall>c\<in>set pre. isspace c) \<and> (\<forall>c\<in>set post. isspace c)"
proof -
  let ?m = "dropWhile isspace C"
  have 1: "C = takeWhile isspace C @ ?m" by simp
  have 2: "rev ?m = takeWhile isspace (rev ?m) @ dropWhile isspace (rev ?m)" by simp
  have "?m = rev (rev ?m)" by simp
  also have "\<dots> = strip C @ rev (takeWhile isspace (rev ?m))"
    unfolding strip_def by (subst 2) (simp only: rev_append)
  finally have 3: "?m = strip C @ rev (takeWhile isspace (rev ?m))" .
  have "C = takeWhile isspace C @ strip C @ rev (takeWhile isspace (rev ?m))"
    using 1 3 by metis
  moreover have "\<forall>c\<in>set (takeWhile isspace C). isspace c"
    by (auto dest: set_takeWhileD)
  moreover have "\<forall>c\<in>set (rev (takeWhile isspace (rev ?m))). isspace c"
    by (auto dest: set_takeWhileD)
  ultimately show ?thesis by blast
qed

lemma strip_hd: "strip C \<noteq> [] \<Longrightarrow> \<not> isspace (hd (strip C))"
proof -
  assume ne: "strip C \<noteq> []"
  let ?m = "dropWhile isspace C"
  have m: "?m \<noteq> []" using ne by (cases "?m = []") (simp_all add: strip_def)
  then have h: "\<not> isspace (hd ?m)" by (rule hd_dropWhile)
  have "?m = strip C @ rev (takeWhile isspace (rev ?m))"
    by (metis strip_def rev_append rev_rev_ident takeWhile_dropWhile_id)
  then have "hd ?m = hd (strip C)" using ne by (metis hd_append2)
  with h show ?thesis by simp
qed

lemma strip_last: "strip C \<noteq> [] \<Longrightarrow> \<not> isspace (last (strip C))"
proof -
  assume ne: "strip C \<noteq> []"
  let ?r = "dropWhile isspace (rev (dropWhile isspace C))"
  have r: "?r \<noteq> []" using ne by (simp add: strip_def)
  then have "\<not> isspace (hd ?r)" by (rule hd_dropWhile)
  moreover have "last (strip C) = hd ?r" using r by (simp add: strip_def last_rev)
  ultimately show ?thesis by simp
qed

text \<open>Which strings \<open>encode\<close> accepts: those of code points that are not
  surrogates. It raises nothing but \<open>UnicodeEncodeError\<close>.\<close>

lemma utf8_None_iff: "utf8 c = None \<longleftrightarrow> (0xD800 \<le> c \<and> c \<le> 0xDFFF) \<or> 0x110000 \<le> c"
  by (auto simp: utf8_def)

lemma encode_Inl: "encode C = Inl e \<Longrightarrow> e = UnicodeEncodeError"
  by (induction C arbitrary: e) (auto split: option.splits sum.splits)

lemma encode_Inr_iff: "(\<exists>bs. encode C = Inr bs) \<longleftrightarrow> (\<forall>c\<in>set C. utf8 c \<noteq> None)"
  by (induction C) (auto split: option.splits sum.splits)

lemma encode_code_points:
  "(\<exists>bs. encode C = Inr bs) \<longleftrightarrow> (\<forall>c\<in>set C. c < 0xD800 \<or> 0xDFFF < c \<and> c < 0x110000)"
  unfolding encode_Inr_iff utf8_None_iff by (auto simp: not_le not_less)

lemma encode_surrogate:
  assumes "\<exists>c\<in>set C. 0xD800 \<le> c \<and> c \<le> 0xDFFF"
  shows "encode (C @ t) = Inl UnicodeEncodeError"
proof -
  from assms have "\<not> (\<forall>c\<in>set (C @ t). utf8 c \<noteq> None)"
    by (auto simp: utf8_None_iff)
  then have "\<not> (\<exists>bs. encode (C @ t) = Inr bs)"
    using encode_Inr_iff [of "C @ t"] by blast
  then obtain e where "encode (C @ t) = Inl e"
    by (cases "encode (C @ t)") auto
  then show ?thesis using encode_Inl by blast
qed

section \<open>Facts about the handler\<close>

text \<open>The handler in two cases: lines 12 and 13 produce the bytes and the write is
  reached, or one of them raises and the port is left as it was.\<close>

lemma send_command_reaches_write:
  assumes "command_line rel req = Inr c" and "encode c = Inr bs"
  shows "send_command rel dev req ser =
           (case ser_write dev bs ser of
              (ser', Inl e) \<Rightarrow> (ser', Inl e)
            | (ser', Inr n) \<Rightarrow>
                (ser', Inr [(lit ''status'', lit ''sent''), (lit ''command'', strip c)]))"
  using assms by (simp add: send_command_def)

lemma send_command_raises_early:
  assumes "command_line rel req = Inl e \<or>
           (\<exists>c. command_line rel req = Inr c \<and> encode c = Inl e)"
  shows "send_command rel dev req ser = (ser, Inl e)"
  using assms by (auto simp: send_command_def)

text \<open>An exception never becomes a 2xx response.\<close>

lemma make_response_exn: "400 \<le> status_code (make_response (Inl e))"
  by (cases e) simp_all





text \<open>The bytes one request puts on the wire, when its handler reaches the write.\<close>

lemma post_send_wire:
  assumes "command_line rel req = Inr c" and "encode c = Inr bs"
  shows "wire (fst (post_send rel dev req ser)) =
           wire ser @ (case dev of Accepts \<Rightarrow> bs | Faults k \<Rightarrow> take k bs)"
  using assms by (cases dev) (simp_all add: post_send_def send_command_reaches_write)

text \<open>A lone surrogate, which JSON can carry as \<open>"\ud800"\<close>, has no UTF-8 encoding:
  line 13 raises before the write.\<close>

lemma send_command_lone_surrogate:
  "send_command From_2_3 Accepts (json_body (PDict [(lit ''command'', PStr [0xD800])])) com5 =
     (com5, Inl UnicodeEncodeError)"
  by (simp add: send_command_def command_line_def request_json_def utf8_def)





lemma command_line_no_field:
  "request_json rel req = Inr (PDict d) \<Longrightarrow> map_of d (lit ''command'') = None \<Longrightarrow>
     command_line rel req = Inr [0x0A]"
  by (simp add: command_line_def)

lemma command_line_string:
  "request_json rel req = Inr (PDict d) \<Longrightarrow> map_of d (lit ''command'') = Some (PStr C) \<Longrightarrow>
     command_line rel req = Inr (C @ [0x0A])"
  by (simp add: command_line_def)

lemma command_line_Inr_iff:
  "command_line rel req = Inr c \<longleftrightarrow>
     (\<exists>d. request_json rel req = Inr (PDict d) \<and>
          (map_of d (lit ''command'') = None \<and> c = [0x0A] \<or>
           (\<exists>C. map_of d (lit ''command'') = Some (PStr C) \<and> c = C @ [0x0A])))"
proof (cases "request_json rel req")
  case (Inl e)
  then show ?thesis by (simp add: command_line_def)
next
  case (Inr v)
  show ?thesis
  proof (cases v)
    case (PDict d)
    show ?thesis
    proof (cases "map_of d (lit ''command'')")
      case None
      with Inr PDict show ?thesis by (auto simp: command_line_def)
    next
      case (Some w)
      with Inr PDict show ?thesis by (cases w) (auto simp: command_line_def)
    qed
  qed (use Inr in \<open>simp_all add: command_line_def\<close>)
qed

text \<open>The handler reaches the write exactly when the body is a JSON object whose
  \<open>command\<close> is absent or a string without surrogates.\<close>

lemma reaches_write_iff:
  "(\<exists>c bs. command_line rel req = Inr c \<and> encode c = Inr bs) \<longleftrightarrow>
     (\<exists>d. request_json rel req = Inr (PDict d) \<and>
          (map_of d (lit ''command'') = None \<or>
           (\<exists>C. map_of d (lit ''command'') = Some (PStr C) \<and>
                (\<forall>c\<in>set C. c < 0xD800 \<or> 0xDFFF < c \<and> c < 0x110000))))"
  (is "?L \<longleftrightarrow> ?R")
proof
  assume ?L
  then obtain c bs where c: "command_line rel req = Inr c" and e: "encode c = Inr bs"
    by blast
  from c obtain d where d: "request_json rel req = Inr (PDict d)"
    and *: "map_of d (lit ''command'') = None \<and> c = [0x0A] \<or>
           (\<exists>C. map_of d (lit ''command'') = Some (PStr C) \<and> c = C @ [0x0A])"
    unfolding command_line_Inr_iff by blast
  from * show ?R
  proof
    assume "map_of d (lit ''command'') = None \<and> c = [0x0A]"
    with d show ?R by blast
  next
    assume "\<exists>C. map_of d (lit ''command'') = Some (PStr C) \<and> c = C @ [0x0A]"
    then obtain C where C: "map_of d (lit ''command'') = Some (PStr C)" "c = C @ [0x0A]"
      by blast
    from e C(2) have "\<exists>bs. encode (C @ [0x0A]) = Inr bs" by blast
    then have "\<forall>c\<in>set (C @ [0x0A]). c < 0xD800 \<or> 0xDFFF < c \<and> c < 0x110000"
      by (simp only: encode_code_points)
    then have "\<forall>c\<in>set C. c < 0xD800 \<or> 0xDFFF < c \<and> c < 0x110000"
      by simp
    with d C(1) show ?R by blast
  qed
next
  assume ?R
  then obtain d where d: "request_json rel req = Inr (PDict d)"
    and *: "map_of d (lit ''command'') = None \<or>
           (\<exists>C. map_of d (lit ''command'') = Some (PStr C) \<and>
                (\<forall>c\<in>set C. c < 0xD800 \<or> 0xDFFF < c \<and> c < 0x110000))"
    by blast
  from * show ?L
  proof
    assume "map_of d (lit ''command'') = None"
    with d have "command_line rel req = Inr [0x0A]" by (rule command_line_no_field)
    moreover have "encode [0x0A] = Inr [0x0A]" by (simp add: utf8_def)
    ultimately show ?L by blast
  next
    assume "\<exists>C. map_of d (lit ''command'') = Some (PStr C) \<and>
                (\<forall>c\<in>set C. c < 0xD800 \<or> 0xDFFF < c \<and> c < 0x110000)"
    then obtain C where C: "map_of d (lit ''command'') = Some (PStr C)"
      and ok: "\<forall>c\<in>set C. c < 0xD800 \<or> 0xDFFF < c \<and> c < 0x110000"
      by blast
    from ok obtain bs where "encode C = Inr bs"
      using encode_code_points [of C] by blast
    then have "encode (C @ [0x0A]) = Inr (bs @ [0x0A])" by (rule encode_line)
    moreover from d C have "command_line rel req = Inr (C @ [0x0A])"
      by (rule command_line_string)
    ultimately show ?L by blast
  qed
qed



text \<open>The port after one request, in full.\<close>

lemma send_command_port:
  "fst (send_command rel dev req ser) =
     (case command_line rel req of
        Inl e \<Rightarrow> ser
      | Inr c \<Rightarrow>
          (case encode c of
             Inl e \<Rightarrow> ser
           | Inr bs \<Rightarrow>
               ser\<lparr>calls := calls ser @ [Write bs],
                   wire := wire ser @ (case dev of Accepts \<Rightarrow> bs | Faults k \<Rightarrow> take k bs)\<rparr>))"
  by (cases dev) (simp_all add: send_command_def split: sum.splits)

section \<open>Properties of the forwarder\<close>

subsection \<open>C1: a command string is written with a newline and echoed trimmed\<close>

text \<open>
  C1, as the program has it. When \<open>request.json\<close> is a dictionary whose \<open>command\<close> is
  a string \<open>C\<close> that UTF-8 can encode, and the device accepts the write,
  \<open>send_command\<close> makes one write of the bytes of \<open>C\<close> followed by the byte \<open>0x0A\<close>,
  and returns \<open>{'status': 'sent', 'command': C.strip()}\<close>. The echoed command is \<open>C\<close>
  without the whitespace at BOTH of its ends: \<open>C\<close> is some whitespace, then the echoed
  command, then some whitespace, so the interior is kept as it is.
\<close>

theorem send_command_string:
  assumes "request_json rel req = Inr (PDict d)"
    and "map_of d (lit ''command'') = Some (PStr C)"
    and "encode C = Inr bs"
  shows "send_command rel Accepts req ser =
           (ser\<lparr>calls := calls ser @ [Write (bs @ [0x0A])], wire := wire ser @ bs @ [0x0A]\<rparr>,
            Inr [(lit ''status'', lit ''sent''), (lit ''command'', strip C)])
         \<and> (\<exists>pre post. C = pre @ strip C @ post \<and>
               (\<forall>c\<in>set pre. isspace c) \<and> (\<forall>c\<in>set post. isspace c))"
proof -
  have "command_line rel req = Inr (C @ [0x0A])"
    using assms(1,2) by (simp add: command_line_def)
  moreover have "encode (C @ [0x0A]) = Inr (bs @ [0x0A])"
    using assms(3) by (rule encode_line)
  ultimately have "send_command rel Accepts req ser =
           (ser\<lparr>calls := calls ser @ [Write (bs @ [0x0A])], wire := wire ser @ bs @ [0x0A]\<rparr>,
            Inr [(lit ''status'', lit ''sent''), (lit ''command'', strip C)])"
    by (simp add: send_command_reaches_write strip_line)
  then show ?thesis
    using strip_decomp [of C] by simp
qed

text \<open>The scenario \<open>{"command": "LED_ON"}\<close>: the device receives \<open>LED_ON\n\<close>.\<close>

theorem send_command_string_witness:
  "send_command From_2_3 Accepts
     (json_body (PDict [(lit ''command'', PStr (lit ''LED_ON''))])) com5 =
     (com5\<lparr>calls := [Open, Write [76, 69, 68, 95, 79, 78, 10]],
           wire := [76, 69, 68, 95, 79, 78, 10]\<rparr>,
      Inr [(lit ''status'', lit ''sent''), (lit ''command'', lit ''LED_ON'')])"
proof -
  have 1: "request_json From_2_3 (json_body (PDict [(lit ''command'', PStr (lit ''LED_ON''))])) =
             Inr (PDict [(lit ''command'', PStr (lit ''LED_ON''))])"
    by (simp add: request_json_def)
  have 2: "map_of [(lit ''command'', PStr (lit ''LED_ON''))] (lit ''command'') =
             Some (PStr (lit ''LED_ON''))"
    by simp
  have 3: "encode (lit ''LED_ON'') = Inr [76, 69, 68, 95, 79, 78]"
    by (simp add: lit_def utf8_def)
  have 4: "strip (lit ''LED_ON'') = lit ''LED_ON''"
    by (simp add: strip_def lit_def isspace_def)
  show ?thesis
    using send_command_string [OF 1 2 3, of com5, THEN conjunct1] 4 by simp
qed

text \<open>
  C1 as it is stated fails: it has the echoed command trimmed of trailing whitespace
  only, leading characters kept. For the command \<open>" X"\<close> that would be \<open>" X"\<close>
  (\<open>rstrip\<close> leaves it alone); the handler answers \<open>"X"\<close>.
\<close>

theorem send_command_strips_leading:
  "snd (send_command From_2_3 Accepts
          (json_body (PDict [(lit ''command'', PStr (lit '' X''))])) com5) =
     Inr [(lit ''status'', lit ''sent''), (lit ''command'', lit ''X'')]
   \<and> rstrip (lit '' X'') = lit '' X'' \<and> lit ''X'' \<noteq> lit '' X''"
  by (simp add: send_command_def command_line_def request_json_def lit_def utf8_def
      strip_def rstrip_def isspace_def)

subsection \<open>C2: a body without the field, and a body that is not JSON\<close>

text \<open>
  C2, as the program has it. When \<open>request.json\<close> is a dictionary without the key
  \<open>command\<close> (the body \<open>{}\<close>) and the device accepts the write, \<open>send_command\<close> writes
  the single byte \<open>0x0A\<close> and returns \<open>{'status': 'sent', 'command': ''}\<close>.
  A body that is not valid JSON is not treated as an empty command: \<open>request.json\<close>
  raises (or, for the oldest releases and a content type other than JSON, is \<open>None\<close>,
  on which \<open>.get\<close> raises), the port is left untouched and the response is an HTTP
  error.
\<close>

theorem send_command_no_field:
  "(request_json rel req = Inr (PDict d) \<and> map_of d (lit ''command'') = None \<longrightarrow>
      send_command rel Accepts req ser =
        (ser\<lparr>calls := calls ser @ [Write [0x0A]], wire := wire ser @ [0x0A]\<rparr>,
         Inr [(lit ''status'', lit ''sent''), (lit ''command'', [])]))
   \<and> (loads req' = None \<longrightarrow>
        fst (send_command rel dev req' ser) = ser \<and>
        isl (snd (send_command rel dev req' ser)) \<and>
        400 \<le> status_code (snd (post_send rel dev req' ser)))"
proof (intro conjI impI)
  assume "request_json rel req = Inr (PDict d) \<and> map_of d (lit ''command'') = None"
  then have "command_line rel req = Inr [0x0A]"
    by (simp add: command_line_def)
  moreover have "encode [0x0A] = Inr [0x0A]"
    by (simp add: utf8_def)
  moreover have "strip [0x0A] = []"
    by (simp add: strip_def isspace_def)
  ultimately show "send_command rel Accepts req ser =
        (ser\<lparr>calls := calls ser @ [Write [0x0A]], wire := wire ser @ [0x0A]\<rparr>,
         Inr [(lit ''status'', lit ''sent''), (lit ''command'', [])])"
    by (simp add: send_command_reaches_write)
next
  assume n: "loads req' = None"
  have "\<exists>e. command_line rel req' = Inl e"
    using n by (cases rel) (simp_all add: command_line_def request_json_def)
  then obtain e where "command_line rel req' = Inl e" ..
  then have *: "send_command rel dev req' ser = (ser, Inl e)"
    by (simp add: send_command_raises_early)
  from * show "fst (send_command rel dev req' ser) = ser" by simp
  from * show "isl (snd (send_command rel dev req' ser))" by simp
  from * show "400 \<le> status_code (snd (post_send rel dev req' ser))"
    by (simp add: post_send_def make_response_exn)
qed

text \<open>The scenario \<open>{}\<close>, and a body announced as JSON that does not parse.\<close>

theorem send_command_no_field_witness:
  "send_command From_2_3 Accepts (json_body (PDict [])) com5 =
     (com5\<lparr>calls := [Open, Write [10]], wire := [10]\<rparr>,
      Inr [(lit ''status'', lit ''sent''), (lit ''command'', [])])
   \<and> loads \<lparr>is_json = True, loads = None\<rparr> = None
   \<and> fst (send_command From_2_3 Accepts \<lparr>is_json = True, loads = None\<rparr> com5) = com5
   \<and> 400 \<le> status_code (snd (post_send From_2_3 Accepts \<lparr>is_json = True, loads = None\<rparr> com5))"
proof -
  have 1: "request_json From_2_3 (json_body (PDict [])) = Inr (PDict []) \<and>
           map_of ([] :: (pystr \<times> pyval) list) (lit ''command'') = None"
    by (simp add: request_json_def)
  have 2: "loads \<lparr>is_json = True, loads = None\<rparr> = None"
    by simp
  show ?thesis
    using send_command_no_field [where rel = From_2_3 and req = "json_body (PDict [])"
            and d = "[]" and ser = com5 and req' = "\<lparr>is_json = True, loads = None\<rparr>"
            and dev = Accepts] 1 2
    by simp
qed

text \<open>
  C2 as it is stated fails for the unparsable body: it promises a write of one newline
  and a success response with an empty command; the handler raises \<open>BadRequest\<close>
  before anything is written, and the response is 400.
\<close>

theorem send_command_rejects_bad_json:
  "send_command From_2_3 Accepts \<lparr>is_json = True, loads = None\<rparr> com5 = (com5, Inl BadRequest)
   \<and> snd (post_send From_2_3 Accepts \<lparr>is_json = True, loads = None\<rparr> com5) =
       \<lparr>status_code = 400, json = None\<rparr>"
  by (simp add: post_send_def send_command_def command_line_def request_json_def)

subsection \<open>C3: a failing write\<close>




subsection \<open>C4: the success response\<close>

text \<open>
  C4. For every request whose write succeeds (the handler reaches the write and
  \<open>ser.write\<close> returns), the response has status 200 and the body
  \<open>{'status': 'sent', 'command': ...}\<close>; its status field is the string \<open>sent\<close>
  and nothing else.
\<close>

theorem success_is_200_sent:
  assumes "command_line rel req = Inr c" and "encode c = Inr bs"
    and "snd (ser_write dev bs ser) = Inr n"
  shows "snd (post_send rel dev req ser) =
           \<lparr>status_code = 200,
            json = Some [(lit ''status'', lit ''sent''), (lit ''command'', strip c)]\<rparr>"
  using assms
  by (cases dev) (simp_all add: send_command_reaches_write post_send_def)

theorem success_is_200_sent_witness:
  "snd (ser_write Accepts [79, 70, 70, 10] com5) = Inr 4 \<and>
   snd (post_send Before_2_1 Accepts (json_body (PDict [(lit ''command'', PStr (lit ''OFF''))])) com5) =
     \<lparr>status_code = 200, json = Some [(lit ''status'', lit ''sent''), (lit ''command'', lit ''OFF'')]\<rparr>"
proof -
  have 1: "command_line Before_2_1 (json_body (PDict [(lit ''command'', PStr (lit ''OFF''))])) =
             Inr (lit ''OFF'' @ [10])"
    by (simp add: command_line_def request_json_def)
  have 2: "encode (lit ''OFF'' @ [10]) = Inr [79, 70, 70, 10]"
    by (simp add: lit_def utf8_def)
  have 3: "snd (ser_write Accepts [79, 70, 70, 10] com5) = Inr 4"
    by simp
  have 4: "strip (lit ''OFF'' @ [10]) = lit ''OFF''"
    by (simp add: strip_def lit_def isspace_def)
  show ?thesis
    using success_is_200_sent [OF 1 2 3] 3 4 by simp
qed

text \<open>Conversely, 200 is answered on that path only.\<close>

lemma status_200_iff:
  "status_code (snd (post_send rel dev req ser)) = 200 \<longleftrightarrow>
     dev = Accepts \<and> (\<exists>c bs. command_line rel req = Inr c \<and> encode c = Inr bs)"
proof -
  have ne: "status_code (make_response (Inl e)) \<noteq> 200" for e
    using make_response_exn [of e] by simp
  show ?thesis
    by (cases dev) (auto simp: post_send_def send_command_def ne split: sum.splits)
qed

subsection \<open>C5: one port, opened once\<close>



subsection \<open>C6: the port cannot be opened\<close>

text \<open>
  C6. When the device cannot be opened at startup, the process ends with the
  \<open>SerialException\<close> of line 8, whatever requests are waiting: the serving loop is
  never entered and no response is produced.
\<close>

theorem startup_failure_is_fatal:
  "main False rel inputs = Inl SerialException"
  by (simp add: main_def Serial_def)

theorem startup_failure_is_fatal_witness:
  "main False From_2_3 [(Accepts, json_body (PDict []))] = Inl SerialException"
  using startup_failure_is_fatal [of From_2_3 "[(Accepts, json_body (PDict []))]"] by simp

subsection \<open>C7: the calls one request makes on the port\<close>

text \<open>
  C7, as the program has it. Every request leaves the port as it was or makes one
  write on it, and does nothing else to it: no read, no other call, no change of its
  settings, and on the wire nothing but bytes of that write. It makes exactly one
  write when the body is a JSON object whose \<open>command\<close> is absent (the write is one
  newline) or a string that UTF-8 can encode (the write is its bytes and a newline).
  It makes none, and leaves the port untouched, when the handler raises before the
  write: \<open>request.json\<close> raises, the body is not an object, the command is not a
  string, or the command holds a surrogate.
\<close>

theorem one_write_or_none:
  "(fst (send_command rel dev req ser) = ser \<or>
    (\<exists>bs k. fst (send_command rel dev req ser) =
       ser\<lparr>calls := calls ser @ [Write bs], wire := wire ser @ take k bs\<rparr>))
   \<and> (request_json rel ra = Inr (PDict da) \<and> map_of da (lit ''command'') = None \<longrightarrow>
        fst (send_command rel dev ra ser) =
          ser\<lparr>calls := calls ser @ [Write [0x0A]],
              wire := wire ser @ (case dev of Accepts \<Rightarrow> [0x0A] | Faults k \<Rightarrow> take k [0x0A])\<rparr>)
   \<and> (request_json rel rb = Inr (PDict db) \<and> map_of db (lit ''command'') = Some (PStr C) \<and>
       (\<forall>c\<in>set C. c < 0xD800 \<or> 0xDFFF < c \<and> c < 0x110000) \<longrightarrow>
        (\<exists>bs. encode C = Inr bs \<and>
           fst (send_command rel dev rb ser) =
             ser\<lparr>calls := calls ser @ [Write (bs @ [0x0A])],
                 wire := wire ser @
                   (case dev of Accepts \<Rightarrow> bs @ [0x0A] | Faults k \<Rightarrow> take k (bs @ [0x0A]))\<rparr>))
   \<and> ((\<exists>e. request_json rel rc = Inl e) \<or>
       (\<exists>v. request_json rel rc = Inr v \<and> \<not> is_dict v) \<or>
       (\<exists>d v. request_json rel rc = Inr (PDict d) \<and>
              map_of d (lit ''command'') = Some v \<and> \<not> is_str v) \<or>
       (\<exists>d S. request_json rel rc = Inr (PDict d) \<and>
              map_of d (lit ''command'') = Some (PStr S) \<and>
              (\<exists>c\<in>set S. 0xD800 \<le> c \<and> c \<le> 0xDFFF)) \<longrightarrow>
        fst (send_command rel dev rc ser) = ser)"
proof (intro conjI impI)
  show "fst (send_command rel dev req ser) = ser \<or>
    (\<exists>bs k. fst (send_command rel dev req ser) =
       ser\<lparr>calls := calls ser @ [Write bs], wire := wire ser @ take k bs\<rparr>)"
  proof (cases "\<exists>c bs. command_line rel req = Inr c \<and> encode c = Inr bs")
    case True
    then obtain c bs where "command_line rel req = Inr c" "encode c = Inr bs" by blast
    then have *: "fst (send_command rel dev req ser) =
        ser\<lparr>calls := calls ser @ [Write bs],
            wire := wire ser @ (case dev of Accepts \<Rightarrow> bs | Faults k \<Rightarrow> take k bs)\<rparr>"
      by (simp add: send_command_port)
    have "\<exists>k. (case dev of Accepts \<Rightarrow> bs | Faults k \<Rightarrow> take k bs) = take k bs"
      by (cases dev) (auto intro: exI [of _ "length bs"])
    with * show ?thesis by metis
  next
    case False
    then have "fst (send_command rel dev req ser) = ser"
      by (auto simp: send_command_port split: sum.splits)
    then show ?thesis ..
  qed
next
  assume "request_json rel ra = Inr (PDict da) \<and> map_of da (lit ''command'') = None"
  then have "command_line rel ra = Inr [0x0A]"
    by (simp add: command_line_no_field)
  moreover have "encode [0x0A] = Inr [0x0A]"
    by (simp add: utf8_def)
  ultimately show "fst (send_command rel dev ra ser) =
          ser\<lparr>calls := calls ser @ [Write [0x0A]],
              wire := wire ser @ (case dev of Accepts \<Rightarrow> [0x0A] | Faults k \<Rightarrow> take k [0x0A])\<rparr>"
    by (simp add: send_command_port)
next
  assume a: "request_json rel rb = Inr (PDict db) \<and> map_of db (lit ''command'') = Some (PStr C) \<and>
       (\<forall>c\<in>set C. c < 0xD800 \<or> 0xDFFF < c \<and> c < 0x110000)"
  then obtain bs where bs: "encode C = Inr bs"
    using encode_code_points [of C] by blast
  then have "encode (C @ [0x0A]) = Inr (bs @ [0x0A])"
    by (rule encode_line)
  moreover from a have "command_line rel rb = Inr (C @ [0x0A])"
    by (simp add: command_line_string)
  ultimately have "fst (send_command rel dev rb ser) =
             ser\<lparr>calls := calls ser @ [Write (bs @ [0x0A])],
                 wire := wire ser @
                   (case dev of Accepts \<Rightarrow> bs @ [0x0A] | Faults k \<Rightarrow> take k (bs @ [0x0A]))\<rparr>"
    by (simp add: send_command_port)
  with bs show "\<exists>bs. encode C = Inr bs \<and>
           fst (send_command rel dev rb ser) =
             ser\<lparr>calls := calls ser @ [Write (bs @ [0x0A])],
                 wire := wire ser @
                   (case dev of Accepts \<Rightarrow> bs @ [0x0A] | Faults k \<Rightarrow> take k (bs @ [0x0A]))\<rparr>"
    by blast
next
  assume a: "(\<exists>e. request_json rel rc = Inl e) \<or>
       (\<exists>v. request_json rel rc = Inr v \<and> \<not> is_dict v) \<or>
       (\<exists>d v. request_json rel rc = Inr (PDict d) \<and>
              map_of d (lit ''command'') = Some v \<and> \<not> is_str v) \<or>
       (\<exists>d S. request_json rel rc = Inr (PDict d) \<and>
              map_of d (lit ''command'') = Some (PStr S) \<and>
              (\<exists>c\<in>set S. 0xD800 \<le> c \<and> c \<le> 0xDFFF))"
  have "\<not> (\<exists>c bs. command_line rel rc = Inr c \<and> encode c = Inr bs)"
  proof
    assume "\<exists>c bs. command_line rel rc = Inr c \<and> encode c = Inr bs"
    then obtain d where d: "request_json rel rc = Inr (PDict d)"
      and *: "map_of d (lit ''command'') = None \<or>
           (\<exists>C. map_of d (lit ''command'') = Some (PStr C) \<and>
                (\<forall>c\<in>set C. c < 0xD800 \<or> 0xDFFF < c \<and> c < 0x110000))"
      unfolding reaches_write_iff by blast
    from a d * show False
      by (elim disjE exE conjE bexE) (auto simp: not_less)
  qed
  then show "fst (send_command rel dev rc ser) = ser"
    by (auto simp: send_command_port split: sum.splits)
qed

text \<open>The bodies \<open>{}\<close>, \<open>{"command": "ON"}\<close> and \<open>{"command": true}\<close> on a device that
  faults after one byte.\<close>

theorem one_write_or_none_witness:
  "fst (send_command From_2_1 (Faults 1) (json_body (PDict [])) com5) =
     com5\<lparr>calls := [Open, Write [10]], wire := [10]\<rparr>
   \<and> fst (send_command From_2_1 (Faults 1)
       (json_body (PDict [(lit ''command'', PStr (lit ''ON''))])) com5) =
     com5\<lparr>calls := [Open, Write [79, 78, 10]], wire := [79]\<rparr>
   \<and> \<not> is_str (PBool True)
   \<and> fst (send_command From_2_1 (Faults 1)
       (json_body (PDict [(lit ''command'', PBool True)])) com5) = com5"
proof -
  let ?r0 = "json_body (PDict [])"
  let ?r1 = "json_body (PDict [(lit ''command'', PStr (lit ''ON''))])"
  let ?r2 = "json_body (PDict [(lit ''command'', PBool True)])"
  have h0: "request_json From_2_1 ?r0 = Inr (PDict []) \<and>
            map_of ([] :: (pystr \<times> pyval) list) (lit ''command'') = None"
    by (simp add: request_json_def)
  have h1: "request_json From_2_1 ?r1 = Inr (PDict [(lit ''command'', PStr (lit ''ON''))]) \<and>
            map_of [(lit ''command'', PStr (lit ''ON''))] (lit ''command'') = Some (PStr (lit ''ON'')) \<and>
            (\<forall>c\<in>set (lit ''ON''). c < 0xD800 \<or> 0xDFFF < c \<and> c < 0x110000)"
    by (simp add: request_json_def lit_def)
  have n: "\<not> is_str (PBool True)"
    by simp
  have "request_json From_2_1 ?r2 = Inr (PDict [(lit ''command'', PBool True)]) \<and>
            map_of [(lit ''command'', PBool True)] (lit ''command'') = Some (PBool True) \<and>
            \<not> is_str (PBool True)"
    by (simp add: request_json_def)
  then have h2: "(\<exists>e. request_json From_2_1 ?r2 = Inl e) \<or>
       (\<exists>v. request_json From_2_1 ?r2 = Inr v \<and> \<not> is_dict v) \<or>
       (\<exists>d v. request_json From_2_1 ?r2 = Inr (PDict d) \<and>
              map_of d (lit ''command'') = Some v \<and> \<not> is_str v) \<or>
       (\<exists>d S. request_json From_2_1 ?r2 = Inr (PDict d) \<and>
              map_of d (lit ''command'') = Some (PStr S) \<and>
              (\<exists>c\<in>set S. 0xD800 \<le> c \<and> c \<le> 0xDFFF))"
    by blast
  have e: "encode (lit ''ON'') = Inr [79, 78]"
    by (simp add: lit_def utf8_def)
  note inst = one_write_or_none [where rel = From_2_1 and dev = "Faults 1" and ser = com5
      and ra = ?r0 and da = "[]" and rb = ?r1
      and db = "[(lit ''command'', PStr (lit ''ON''))]" and C = "lit ''ON''" and rc = ?r2]
  from inst h0 have a: "fst (send_command From_2_1 (Faults 1) ?r0 com5) =
     com5\<lparr>calls := [Open, Write [10]], wire := [10]\<rparr>"
    by simp
  from inst h1 e have b: "fst (send_command From_2_1 (Faults 1) ?r1 com5) =
     com5\<lparr>calls := [Open, Write [79, 78, 10]], wire := [79]\<rparr>"
    by auto
  from inst h2 have c: "fst (send_command From_2_1 (Faults 1) ?r2 com5) = com5"
    by blast
  from a b c n show ?thesis by blast
qed

text \<open>
  C7 as it is stated fails: it has every request make exactly one write. The request
  \<open>{"command": 5}\<close> raises \<open>TypeError\<close> on line 12 and makes none.
\<close>

theorem no_write_for_number:
  "send_command From_2_3 Accepts (json_body (PDict [(lit ''command'', PInt 5)])) com5 =
     (com5, Inl TypeError)
   \<and> calls (fst (send_command From_2_3 Accepts
         (json_body (PDict [(lit ''command'', PInt 5)])) com5)) = [Open]"
  by (simp add: send_command_def command_line_def request_json_def)

subsection \<open>C8: two requests, one after the other\<close>

text \<open>
  C8, as the program has it. For two requests served one after the other, from any
  state of the port, whose handlers reach the write: every byte the first puts on the
  wire is there before any byte of the second. After the first request the wire has
  grown by what the first transmitted, which is its whole payload when the device
  accepts the write and the part that went out when the write fails; after the
  second, what the second transmitted follows it. Nothing of the second lies inside
  the first.
\<close>

theorem sequential_writes_in_order:
  assumes "command_line rel r1 = Inr c1" and "encode c1 = Inr b1"
    and "command_line rel r2 = Inr c2" and "encode c2 = Inr b2"
  shows "wire (fst (app_run rel ser [(d1, r1)])) =
           wire ser @ (case d1 of Accepts \<Rightarrow> b1 | Faults k \<Rightarrow> take k b1)
       \<and> wire (fst (app_run rel ser [(d1, r1), (d2, r2)])) =
           wire ser @ (case d1 of Accepts \<Rightarrow> b1 | Faults k \<Rightarrow> take k b1)
                    @ (case d2 of Accepts \<Rightarrow> b2 | Faults k \<Rightarrow> take k b2)"
proof -
  let ?s = "fst (post_send rel d1 r1 ser)"
  have 1: "fst (app_run rel ser [(d1, r1)]) = ?s"
    by (simp split: prod.splits)
  have 2: "fst (app_run rel ser [(d1, r1), (d2, r2)]) = fst (post_send rel d2 r2 ?s)"
    by (simp split: prod.splits)
  show ?thesis
    unfolding 1 2
    by (simp add: post_send_wire [OF assms(1,2)] post_send_wire [OF assms(3,4)])
qed

text \<open>The scenario \<open>{"command": "MOVE 10 20"}\<close>, then \<open>{}\<close>.\<close>

theorem sequential_writes_in_order_witness:
  "wire (fst (app_run From_2_3 com5
      [(Accepts, json_body (PDict [(lit ''command'', PStr (lit ''MOVE 10 20''))])),
       (Accepts, json_body (PDict []))])) =
   [77, 79, 86, 69, 32, 49, 48, 32, 50, 48, 10] @ [10]"
proof -
  have 1: "command_line From_2_3 (json_body (PDict [(lit ''command'', PStr (lit ''MOVE 10 20''))])) =
             Inr (lit ''MOVE 10 20'' @ [10])"
    by (simp add: command_line_def request_json_def)
  have 2: "encode (lit ''MOVE 10 20'' @ [10]) = Inr [77, 79, 86, 69, 32, 49, 48, 32, 50, 48, 10]"
    by (simp add: lit_def utf8_def)
  have 3: "command_line From_2_3 (json_body (PDict [])) = Inr [10]"
    by (simp add: command_line_def request_json_def)
  have 4: "encode [10] = Inr [10]"
    by (simp add: utf8_def)
  show ?thesis
    using sequential_writes_in_order [OF 1 2 3 4, of com5 Accepts Accepts, THEN conjunct2]
    by simp
qed

text \<open>
  C8 as it is stated fails: it has the payload of the first request fully transmitted
  before the second begins. When the write of \<open>ON\n\<close> fails after one byte, the
  request completes with 500 and only \<open>O\<close> is on the wire; the next request,
  \<open>OFF\n\<close>, follows it, and the device has received \<open>OOFF\n\<close>.
\<close>

theorem partial_write_then_next:
  "command_line From_2_3 (json_body (PDict [(lit ''command'', PStr (lit ''ON''))])) =
     Inr (lit ''ON'' @ [10])
   \<and> encode (lit ''ON'' @ [10]) = Inr [79, 78, 10]
   \<and> snd (app_run From_2_3 com5
       [(Faults 1, json_body (PDict [(lit ''command'', PStr (lit ''ON''))])),
        (Accepts, json_body (PDict [(lit ''command'', PStr (lit ''OFF''))]))]) =
     [\<lparr>status_code = 500, json = None\<rparr>,
      \<lparr>status_code = 200,
        json = Some [(lit ''status'', lit ''sent''), (lit ''command'', lit ''OFF'')]\<rparr>]
   \<and> wire (fst (app_run From_2_3 com5
       [(Faults 1, json_body (PDict [(lit ''command'', PStr (lit ''ON''))])),
        (Accepts, json_body (PDict [(lit ''command'', PStr (lit ''OFF''))]))])) =
     [79, 79, 70, 70, 10]"
  by (simp add: post_send_def send_command_def command_line_def request_json_def lit_def
      utf8_def strip_def isspace_def)

subsection \<open>C9: a command that is not a string\<close>

text \<open>
  C9. When the body is a JSON object whose \<open>command\<close> is not a string (a number,
  \<open>null\<close>, a boolean, a list, an object), the concatenation on line 12 raises
  \<open>TypeError\<close>: the value is neither coerced nor replaced by the empty string, the
  port is left as it was, and the response is 500.
\<close>

theorem non_string_command_raises:
  assumes "request_json rel req = Inr (PDict d)"
    and "map_of d (lit ''command'') = Some v"
    and "\<not> is_str v"
  shows "send_command rel dev req ser = (ser, Inl TypeError)
       \<and> snd (post_send rel dev req ser) = \<lparr>status_code = 500, json = None\<rparr>"
proof -
  have "py_add v [0x0A] = Inl TypeError"
    using assms(3) by (cases v) simp_all
  then have "command_line rel req = Inl TypeError"
    using assms(1,2) by (simp add: command_line_def)
  then have "send_command rel dev req ser = (ser, Inl TypeError)"
    by (simp add: send_command_raises_early)
  then show ?thesis by (simp add: post_send_def)
qed

theorem non_string_command_raises_witness:
  "\<not> is_str PNone \<and>
   send_command From_2_3 Accepts (json_body (PDict [(lit ''command'', PNone)])) com5 =
     (com5, Inl TypeError)"
proof -
  have 1: "request_json From_2_3 (json_body (PDict [(lit ''command'', PNone)])) =
             Inr (PDict [(lit ''command'', PNone)])"
    by (simp add: request_json_def)
  have 2: "map_of [(lit ''command'', PNone)] (lit ''command'') = Some PNone"
    by simp
  have 3: "\<not> is_str PNone"
    by simp
  show ?thesis
    using non_string_command_raises [OF 1 2 3, of Accepts com5] 3 by simp
qed

subsection \<open>C10: a body that is not an object\<close>

text \<open>
  C10. When \<open>request.json\<close> is a value other than a dictionary (\<open>null\<close>, a list, a
  number, a boolean, a bare string), the attribute access \<open>.get\<close> on line 12 raises
  \<open>AttributeError\<close>: the request is not treated as an empty command, the port is left
  as it was, and the response is 500.
\<close>

theorem non_object_body_raises:
  assumes "request_json rel req = Inr v" and "\<not> is_dict v"
  shows "send_command rel dev req ser = (ser, Inl AttributeError)
       \<and> snd (post_send rel dev req ser) = \<lparr>status_code = 500, json = None\<rparr>"
proof -
  have "py_get v (lit ''command'') (PStr []) = Inl AttributeError"
    using assms(2) by (cases v) simp_all
  then have "command_line rel req = Inl AttributeError"
    using assms(1) by (simp add: command_line_def)
  then have "send_command rel dev req ser = (ser, Inl AttributeError)"
    by (simp add: send_command_raises_early)
  then show ?thesis by (simp add: post_send_def)
qed

theorem non_object_body_raises_witness:
  "\<not> is_dict (PList [PStr (lit ''command'')]) \<and>
   send_command From_2_3 Accepts (json_body (PList [PStr (lit ''command'')])) com5 =
     (com5, Inl AttributeError)"
proof -
  have 1: "request_json From_2_3 (json_body (PList [PStr (lit ''command'')])) =
             Inr (PList [PStr (lit ''command'')])"
    by (simp add: request_json_def)
  have 2: "\<not> is_dict (PList [PStr (lit ''command'')])"
    by simp
  show ?thesis
    using non_object_body_raises [OF 1 2, of Accepts com5] 2 by simp
qed

end
